theory Spec2Isabelle
  imports Complex_Main "HOL-Library.Multiset"
begin

section \<open>Quadrature tables of \<^verbatim>\<open>solidspy/gaussutil.py\<close>\<close>

text \<open>
  The module is a set of pure functions that return literal tables of quadrature
  points and weights, plus one builder that forms tensor-product rules.

  Modelling conventions.
  \<^item> A Python \<^verbatim>\<open>int\<close> argument is an \<^typ>\<open>int\<close>.
  \<^item> A floating-point value is a \<^typ>\<open>real\<close>; a decimal literal of the source denotes
    the rational number that its digits spell. Rounding to binary64 is not modelled, so
    every statement below is about the tabulated decimals themselves.
  \<^item> A list, tuple or one-dimensional array is a list; a two-dimensional array is a
    list of rows.
  \<^item> \<^verbatim>\<open>raise ValueError(msg)\<close> is the value \<open>Inl (ValueError msg)\<close> of a sum type;
    a normal return is \<open>Inr\<close>.
\<close>

datatype error = ValueError string

subsection \<open>Library operations used by the module\<close>

text \<open>
  \<^verbatim>\<open>itertools.product(pool, repeat=r)\<close>, after the equivalent code given in the Python
  library reference:
  \<^verbatim>\<open>
    pools = [tuple(pool)] * repeat
    result = [[]]
    for pool in pools:
        result = [x+[y] for x in result for y in pool]
  \<close>
  The constructor rejects a negative \<^verbatim>\<open>repeat\<close> with a \<^verbatim>\<open>ValueError\<close>.
\<close>

definition product_step :: "'a list list \<Rightarrow> 'a list \<Rightarrow> 'a list list" where
  "product_step result pool = concat (map (\<lambda>x. map (\<lambda>y. x @ [y]) pool) result)"

definition product_pools :: "'a list list \<Rightarrow> 'a list list" where
  "product_pools pools = foldl product_step [[]] pools"

definition product_repeat :: "'a list \<Rightarrow> int \<Rightarrow> error + 'a list list" where
  "product_repeat pool r =
     (if r < 0 then Inl (ValueError ''repeat argument cannot be negative'')
      else Inr (product_pools (replicate (nat r) pool)))"

text \<open>\<^verbatim>\<open>np.prod\<close> of a tuple of floats: the product of its components, 1.0 when empty.\<close>

definition np_prod :: "real list \<Rightarrow> real" where
  "np_prod xs = foldl (*) 1 xs"

text \<open>\<^verbatim>\<open>np.ones([n])\<close>, \<^verbatim>\<open>np.full([n], v)\<close> and \<^verbatim>\<open>np.zeros([m, n])\<close>.\<close>

definition np_full :: "nat \<Rightarrow> real \<Rightarrow> real list" where
  "np_full n v = replicate n v"

definition np_ones :: "nat \<Rightarrow> real list" where
  "np_ones n = np_full n 1"

definition np_zeros2 :: "nat \<Rightarrow> nat \<Rightarrow> real list list" where
  "np_zeros2 m n = replicate m (replicate n 0)"

text \<open>
  The assignment \<^verbatim>\<open>a[i, j] = v\<close> on a two-dimensional array. Every index in the module
  is a literal inside the shape given to \<^verbatim>\<open>np.zeros\<close> just before, so the
  \<^verbatim>\<open>IndexError\<close> branch of numpy is never taken and is not modelled.
\<close>

definition setitem2 :: "real list list \<Rightarrow> nat \<times> nat \<Rightarrow> real \<Rightarrow> real list list" where
  "setitem2 a ij v = (case ij of (i, j) \<Rightarrow> a[i := (a ! i)[j := v]])"

subsection \<open>General rules\<close>

text \<open>\<^verbatim>\<open>gauss_1d(npts)\<close>: the if/elif chain over the nine tabulated point counts.\<close>

definition gauss_1d :: "int \<Rightarrow> error + real list \<times> real list" where
  "gauss_1d npts =
    (if npts = 2 then
       Inr ([- 0.577350269189625764, 0.577350269189625764],
            [1.00000000000000000, 1.00000000000000000])
     else if npts = 3 then
       Inr ([- 0.774596669241483377, 0, 0.774596669241483377],
            [0.555555555555555556, 0.888888888888888889,
             0.555555555555555556])
     else if npts = 4 then
       Inr ([- 0.861136311594052575, - 0.339981043584856265,
             0.339981043584856265, 0.861136311594052575],
            [0.347854845137453857, 0.652145154862546143,
             0.652145154862546143, 0.347854845137453857])
     else if npts = 5 then
       Inr ([- 0.906179845938663993, - 0.538469310105683091, 0,
             0.538469310105683091, 0.906179845938663993],
            [0.236926885056189088, 0.478628670499366468,
             0.568888888888888889, 0.478628670499366468,
             0.236926885056189088])
     else if npts = 6 then
       Inr ([- 0.932469514203152028, - 0.661209386466264514,
             - 0.238619186083196909, 0.238619186083196909,
             0.661209386466264514, 0.932469514203152028],
            [0.171324492379170345, 0.360761573048138608,
             0.467913934572691047, 0.467913934572691047,
             0.360761573048138608, 0.171324492379170345])
     else if npts = 7 then
       Inr ([- 0.949107912342758525, - 0.741531185599394440,
             - 0.405845151377397167, 0, 0.405845151377397167,
             0.741531185599394440, 0.949107912342758525],
            [0.129484966168869693, 0.279705391489276668,
             0.381830050505118945, 0.417959183673469388,
             0.381830050505118945, 0.279705391489276668,
             0.129484966168869693])
     else if npts = 8 then
       Inr ([- 0.960289856497536232, - 0.796666477413626740,
             - 0.525532409916328986, - 0.183434642495649805,
             0.183434642495649805, 0.525532409916328986,
             0.796666477413626740, 0.960289856497536232],
            [0.101228536290376259, 0.222381034453374471,
             0.313706645877887287, 0.362683783378361983,
             0.362683783378361983, 0.313706645877887287,
             0.222381034453374471, 0.101228536290376259])
     else if npts = 9 then
       Inr ([- 0.968160239507626090, - 0.836031107326635794,
             - 0.613371432700590397, - 0.324253423403808929, 0,
             0.324253423403808929, 0.613371432700590397,
             0.836031107326635794, 0.968160239507626090],
            [0.0812743883615744120, 0.180648160694857404,
             0.260610696402935462, 0.312347077040002840,
             0.330239355001259763, 0.312347077040002840,
             0.260610696402935462, 0.180648160694857404,
             0.0812743883615744120])
     else if npts = 10 then
       Inr ([- 0.973906528517171720, - 0.865063366688984511,
             - 0.679409568299024406, - 0.433395394129247191,
             - 0.148874338981631211, 0.148874338981631211,
             0.433395394129247191, 0.679409568299024406,
             0.865063366688984511, 0.973906528517171720],
            [0.0666713443086881376, 0.149451349150580593,
             0.219086362515982044, 0.269266719309996355,
             0.295524224714752870, 0.295524224714752870,
             0.269266719309996355, 0.219086362515982044,
             0.149451349150580593, 0.0666713443086881376])
     else Inl (ValueError ''The number of points should be in [2, 10]''))"

text \<open>
  \<^verbatim>\<open>gauss_nd(npts, ndim)\<close>. An error of \<^verbatim>\<open>gauss_1d\<close> or of \<^verbatim>\<open>product\<close> is not
  caught, so it leaves the function as it is; the statements run in source order.
\<close>

definition gauss_nd :: "int \<Rightarrow> int \<Rightarrow> error + real list list \<times> real list" where
  "gauss_nd npts ndim =
    (case gauss_1d npts of
       Inl e \<Rightarrow> Inl e
     | Inr (pts, wts) \<Rightarrow>
        (case product_repeat pts ndim of
           Inl e \<Rightarrow> Inl e
         | Inr nd_pts \<Rightarrow>
            (case product_repeat wts ndim of
               Inl e \<Rightarrow> Inl e
             | Inr nd_wts \<Rightarrow> Inr (nd_pts, map np_prod nd_wts))))"

text \<open>\<^verbatim>\<open>gauss_tri(order)\<close>: five literal rule sets for the orders 1 to 7.\<close>

definition gauss_tri :: "int \<Rightarrow> error + real list list \<times> real list" where
  "gauss_tri order =
    (if order = 1 then
       Inr ([[0.3333333333333, 0.3333333333333]], [1.0])
     else if order = 2 then
       Inr ([[0.1666666666667, 0.1666666666667],
             [0.6666666666667, 0.1666666666667],
             [0.1666666666667, 0.6666666666667]],
            np_full 3 0.333333333333)
     else if order \<in> set [3, 4, 5] then
       Inr ([[0.1012865073235, 0.1012865073235],
             [0.7974269853531, 0.1012865073235],
             [0.1012865073235, 0.7974269853531],
             [0.4701420641051, 0.0597158717898],
             [0.4701420641051, 0.4701420641051],
             [0.0597158717898, 0.4701420641051],
             [0.3333333333333, 0.3333333333333]],
            [0.1259391805448, 0.1259391805448, 0.1259391805448,
             0.1323941527885, 0.1323941527885, 0.1323941527885,
             0.225])
     else if order \<in> set [6, 7] then
       Inr ([[0.0651301029022, 0.0651301029022],
             [0.8697397941956, 0.0651301029022],
             [0.0651301029022, 0.8697397941956],
             [0.3128654960049, 0.0486903154253],
             [0.6384441885698, 0.3128654960049],
             [0.0486903154253, 0.6384441885698],
             [0.6384441885698, 0.0486903154253],
             [0.3128654960049, 0.6384441885698],
             [0.0486903154253, 0.3128654960049],
             [0.2603459660790, 0.2603459660790],
             [0.4793080678413, 0.2603459660790],
             [0.2603459660790, 0.4793080678413],
             [0.3333333333333, 0.3333333333333]],
            [0.0533472356088, 0.0533472356088, 0.0533472356088,
             0.0771137608903, 0.0771137608903, 0.0771137608903,
             0.0771137608903, 0.0771137608903, 0.0771137608903,
             0.1756152574332, 0.1756152574332, 0.1756152574332,
             - 0.1495700444677])
     else Inl (ValueError ''The order should be in [1, 7]''))"

text \<open>
  Calls that may leave out the optional argument: \<open>None\<close> stands for an omitted
  argument, which takes the default written in the \<^verbatim>\<open>def\<close> line
  (\<^verbatim>\<open>ndim=2\<close>, \<^verbatim>\<open>order=2\<close>).
\<close>

definition gauss_nd_call :: "int \<Rightarrow> int option \<Rightarrow> error + real list list \<times> real list" where
  "gauss_nd_call npts ndim = gauss_nd npts (case ndim of None \<Rightarrow> 2 | Some d \<Rightarrow> d)"

definition gauss_tri_call :: "int option \<Rightarrow> error + real list list \<times> real list" where
  "gauss_tri_call order = gauss_tri (case order of None \<Rightarrow> 2 | Some k \<Rightarrow> k)"

subsection \<open>Fixed grids (old)\<close>

text \<open>\<^verbatim>\<open>gpoints2x2()\<close> returns the pair (weights, points).\<close>

definition gpoints2x2 :: "real list \<times> real list list" where
  "gpoints2x2 =
    (let wts = np_ones 4;
         pts = np_zeros2 4 2;
         pts = setitem2 pts (0, 0) (- 0.577350269189626);
         pts = setitem2 pts (1, 0) 0.577350269189626;
         pts = setitem2 pts (2, 0) (- 0.577350269189626);
         pts = setitem2 pts (3, 0) 0.577350269189626;
         pts = setitem2 pts (0, 1) 0.577350269189626;
         pts = setitem2 pts (1, 1) 0.577350269189626;
         pts = setitem2 pts (2, 1) (- 0.577350269189626);
         pts = setitem2 pts (3, 1) (- 0.577350269189626)
     in (wts, pts))"

text \<open>\<^verbatim>\<open>gpoints3()\<close> returns the pair (weights, points).\<close>

definition gpoints3 :: "real list \<times> real list list" where
  "gpoints3 =
    (let wts = np_full 3 0.333333333333;
         pts = np_zeros2 3 2;
         pts = setitem2 pts (0, 0) 0.1666666666667;
         pts = setitem2 pts (1, 0) 0.6666666666667;
         pts = setitem2 pts (2, 0) 0.1666666666667;
         pts = setitem2 pts (0, 1) 0.1666666666667;
         pts = setitem2 pts (1, 1) 0.1666666666667;
         pts = setitem2 pts (2, 1) 0.6666666666667
     in (wts, pts))"

subsection \<open>Lexicographic enumeration of a Cartesian power\<close>


section \<open>Properties\<close>

subsection \<open>Basic facts\<close>

lemma product_repeat_zero: "product_repeat pool 0 = Inr [[]]"
  by (simp add: product_repeat_def product_pools_def)

lemma np_prod_Nil: "np_prod [] = 1"
  by (simp add: np_prod_def)

lemma valid_npts_cases:
  assumes "2 \<le> npts" "npts \<le> 10"
  shows "npts = 2 \<or> npts = 3 \<or> npts = 4 \<or> npts = 5 \<or> npts = 6
      \<or> npts = 7 \<or> npts = 8 \<or> npts = 9 \<or> npts = (10::int)"
  using assms by arith

lemma gauss_1d_valid:
  assumes "2 \<le> npts" "npts \<le> 10"
  shows "\<exists>pts wts. gauss_1d npts = Inr (pts, wts)"
  using valid_npts_cases [OF assms] by (auto simp: gauss_1d_def)

lemma gauss_1d_invalid:
  assumes "npts < 2 \<or> 10 < npts"
  shows "gauss_1d npts = Inl (ValueError ''The number of points should be in [2, 10]'')"
  using assms by (auto simp: gauss_1d_def)

lemma gauss_1d_isl: "isl (gauss_1d npts) \<longleftrightarrow> npts < 2 \<or> 10 < npts"
proof (cases "2 \<le> npts \<and> npts \<le> 10")
  case True
  then obtain pts wts where "gauss_1d npts = Inr (pts, wts)"
    using gauss_1d_valid by blast
  with True show ?thesis by simp
next
  case False
  then have "npts < 2 \<or> 10 < npts" by arith
  then show ?thesis using gauss_1d_invalid by simp
qed



lemma gauss_1d_Inr_valid:
  assumes "gauss_1d npts = Inr (pts, wts)"
  shows "2 \<le> npts \<and> npts \<le> 10"
proof -
  from assms have "\<not> isl (gauss_1d npts)" by simp
  then show ?thesis by (simp add: gauss_1d_isl)
qed

lemma gauss_1d_lengths:
  assumes "gauss_1d npts = Inr (pts, wts)"
  shows "length pts = nat npts \<and> length wts = nat npts"
proof -
  from gauss_1d_Inr_valid [OF assms] have "2 \<le> npts" "npts \<le> 10" by simp_all
  from valid_npts_cases [OF this] assms show ?thesis
    by (elim disjE) (auto simp: gauss_1d_def)
qed

subsection \<open>The Cartesian product of \<^verbatim>\<open>itertools.product\<close>\<close>
















subsection \<open>Errors of the line catalog and their propagation\<close>

text \<open>
  Claim C5. \<^verbatim>\<open>gauss_1d(point_count)\<close> raises an error whose message identifies the
  valid range [2, 10] if and only if \<open>point_count\<close> is not one of the tabulated integers
  2 to 10 (so the calls with 1 and with 11 both fail), and \<^verbatim>\<open>gauss_nd(point_count, d)\<close>
  surfaces that same error unchanged for every such \<open>point_count\<close>, whatever \<open>d\<close> is.
\<close>

theorem gauss_1d_error_iff:
  "(isl (gauss_1d npts) \<longleftrightarrow> npts < 2 \<or> 10 < npts) \<and>
   (\<forall>e. gauss_1d npts = Inl e \<longrightarrow>
      e = ValueError ''The number of points should be in [2, 10]'' \<and>
      (\<forall>ndim. gauss_nd npts ndim = Inl e))"
proof -
  have "e = ValueError ''The number of points should be in [2, 10]'' \<and>
      (\<forall>ndim. gauss_nd npts ndim = Inl e)" if e: "gauss_1d npts = Inl e" for e
  proof -
    from e have "isl (gauss_1d npts)" by simp
    then have "npts < 2 \<or> 10 < npts" by (simp add: gauss_1d_isl)
    then have "gauss_1d npts = Inl (ValueError ''The number of points should be in [2, 10]'')"
      by (rule gauss_1d_invalid)
    with e show ?thesis by (simp add: gauss_nd_def)
  qed
  then show ?thesis by (simp add: gauss_1d_isl)
qed

theorem gauss_1d_error_iff_witness:
  "isl (gauss_1d 1) \<and> isl (gauss_1d 11) \<and> \<not> isl (gauss_1d 2) \<and> \<not> isl (gauss_1d 10) \<and>
   gauss_1d 1 = Inl (ValueError ''The number of points should be in [2, 10]'') \<and>
   gauss_nd 1 2 = Inl (ValueError ''The number of points should be in [2, 10]'') \<and>
   gauss_nd 11 (- 3) = Inl (ValueError ''The number of points should be in [2, 10]'')"
proof -
  have a: "gauss_1d 1 = Inl (ValueError ''The number of points should be in [2, 10]'')"
    and b: "gauss_1d 11 = Inl (ValueError ''The number of points should be in [2, 10]'')"
    by (simp_all add: gauss_1d_def)
  from gauss_1d_error_iff [of 1] a
  have "gauss_nd 1 2 = Inl (ValueError ''The number of points should be in [2, 10]'')"
    by blast
  moreover from gauss_1d_error_iff [of 11] b
  have "gauss_nd 11 (- 3) = Inl (ValueError ''The number of points should be in [2, 10]'')"
    by blast
  moreover have "isl (gauss_1d 1) \<and> isl (gauss_1d 11) \<and> \<not> isl (gauss_1d 2) \<and> \<not> isl (gauss_1d 10)"
    using gauss_1d_error_iff [of 1] gauss_1d_error_iff [of 11] gauss_1d_error_iff [of 2]
      gauss_1d_error_iff [of 10] by simp
  ultimately show ?thesis using a by simp
qed

subsection \<open>Invariants of the line catalog\<close>

lemma gauss_1d_sorted:
  assumes "gauss_1d npts = Inr (pts, wts)"
  shows "sorted pts"
proof -
  from gauss_1d_Inr_valid [OF assms] have "2 \<le> npts" "npts \<le> 10" by simp_all
  from valid_npts_cases [OF this] assms show ?thesis
    by (elim disjE) (auto simp: gauss_1d_def)
qed

lemma gauss_1d_antisymmetric:
  assumes "gauss_1d npts = Inr (pts, wts)"
  shows "map uminus (rev pts) = pts"
proof -
  from gauss_1d_Inr_valid [OF assms] have "2 \<le> npts" "npts \<le> 10" by simp_all
  from valid_npts_cases [OF this] assms show ?thesis
    by (elim disjE) (auto simp: gauss_1d_def)
qed

lemma gauss_1d_weight_sum:
  assumes "gauss_1d npts = Inr (pts, wts)"
  shows "\<bar>sum_list wts - 2\<bar> \<le> 1 / 10 ^ 17"
proof -
  from gauss_1d_Inr_valid [OF assms] have "2 \<le> npts" "npts \<le> 10" by simp_all
  from valid_npts_cases [OF this] assms show ?thesis
    by (elim disjE) (auto simp: gauss_1d_def)
qed

lemma gauss_1d_weights_unit:
  assumes "gauss_1d npts = Inr (pts, wts)"
  shows "\<forall>w\<in>set wts. 0 < w \<and> w \<le> 1"
proof -
  from gauss_1d_Inr_valid [OF assms] have "2 \<le> npts" "npts \<le> 10" by simp_all
  from valid_npts_cases [OF this] assms show ?thesis
    by (elim disjE) (auto simp: gauss_1d_def)
qed

lemma sum_list_close:
  fixes xs ys :: "real list"
  assumes "list_all2 (\<lambda>x y. \<bar>x - y\<bar> \<le> e) xs ys"
  shows "\<bar>sum_list xs - sum_list ys\<bar> \<le> real (length ys) * e"
  using assms
proof (induction rule: list_all2_induct)
  case Nil
  show ?case by simp
next
  case (Cons x xs y ys)
  have "\<bar>sum_list (x # xs) - sum_list (y # ys)\<bar> \<le> \<bar>x - y\<bar> + \<bar>sum_list xs - sum_list ys\<bar>"
    by simp
  also have "\<dots> \<le> e + real (length ys) * e"
    using Cons by (intro add_mono) simp_all
  finally show ?case
    by (simp add: algebra_simps)
qed

text \<open>
  The tabulated weights sum to 2 within \<open>1e-17\<close> and all lie in (0, 1], where rounding
  a decimal to binary64 moves it by less than \<open>1 / 2 ^ 53\<close>. So the tolerance of
  \<open>1e-12\<close> also holds for any list of weights that is entrywise that close to the
  table, whatever the rounding is.
\<close>

lemma gauss_1d_weight_sum_rounded:
  assumes "gauss_1d npts = Inr (pts, wts)"
    and "list_all2 (\<lambda>x y. \<bar>x - y\<bar> \<le> 1 / 2 ^ 53) ws wts"
  shows "\<bar>sum_list ws - 2\<bar> \<le> 1 / 10 ^ 12"
proof -
  from gauss_1d_Inr_valid [OF assms(1)] gauss_1d_lengths [OF assms(1)]
  have "real (length wts) \<le> 10"
    by simp
  then have "real (length wts) * (1 / 2 ^ 53) \<le> 10 * (1 / 2 ^ 53)"
    by (intro mult_right_mono) simp_all
  with sum_list_close [OF assms(2)]
  have "\<bar>sum_list ws - sum_list wts\<bar> \<le> 10 * (1 / 2 ^ 53)"
    by (rule order_trans)
  moreover have "\<bar>sum_list ws - 2\<bar> \<le> \<bar>sum_list ws - sum_list wts\<bar> + \<bar>sum_list wts - 2\<bar>"
    by simp
  ultimately have "\<bar>sum_list ws - 2\<bar> \<le> 10 * (1 / 2 ^ 53) + 1 / 10 ^ 17"
    using gauss_1d_weight_sum [OF assms(1)] by linarith
  also have "\<dots> \<le> 1 / 10 ^ 12"
    by simp
  finally show ?thesis .
qed

lemma gauss_1d_interior:
  assumes "gauss_1d npts = Inr (pts, wts)"
  shows "\<forall>p\<in>set pts. - 1 < p \<and> p < 1"
proof -
  from gauss_1d_Inr_valid [OF assms] have "2 \<le> npts" "npts \<le> 10" by simp_all
  from valid_npts_cases [OF this] assms show ?thesis
    by (elim disjE) (auto simp: gauss_1d_def)
qed

lemma gauss_1d_zero_count:
  assumes "gauss_1d npts = Inr (pts, wts)"
  shows "length (filter (\<lambda>p. p = 0) pts) = (if odd npts then 1 else 0)"
proof -
  from gauss_1d_Inr_valid [OF assms] have "2 \<le> npts" "npts \<le> 10" by simp_all
  from valid_npts_cases [OF this] assms show ?thesis
    by (elim disjE) (auto simp: gauss_1d_def)
qed

lemma antisymmetric_nth:
  fixes xs :: "real list"
  assumes "map uminus (rev xs) = xs" "i < length xs"
  shows "xs ! i = - (xs ! (length xs - 1 - i))"
proof -
  from assms(2) have "map uminus (rev xs) ! i = - (xs ! (length xs - Suc i))"
    by (simp add: rev_nth)
  then show ?thesis by (simp only: assms(1) diff_diff_left plus_1_eq_Suc)
qed

text \<open>
  Claim C7. For every tabulated point count \<open>n\<close> in [2, 10], \<^verbatim>\<open>gauss_1d(n)\<close> returns
  exactly \<open>n\<close> points and \<open>n\<close> weights; the weights sum to 2.0 within \<open>1e-12\<close>; the points
  are symmetric about 0 (sorted, the \<open>i\<close>-th point is the negative of the point at
  \<open>n - 1 - i\<close>, for every \<open>i\<close>); every abscissa lies strictly within (-1, 1); and for
  odd \<open>n\<close> exactly one point equals 0.0.
\<close>

theorem gauss_1d_invariants:
  assumes "2 \<le> npts" "npts \<le> 10"
  shows "\<exists>pts wts. gauss_1d npts = Inr (pts, wts) \<and>
           length pts = nat npts \<and> length wts = nat npts \<and>
           \<bar>sum_list wts - 2\<bar> \<le> 1 / 10 ^ 12 \<and>
           (\<forall>i<nat npts. sort pts ! i = - (sort pts ! (nat npts - 1 - i))) \<and>
           (\<forall>p\<in>set pts. - 1 < p \<and> p < 1) \<and>
           (odd npts \<longrightarrow> length (filter (\<lambda>p. p = 0) pts) = 1)"
proof -
  from gauss_1d_valid [OF assms] obtain pts wts where g: "gauss_1d npts = Inr (pts, wts)"
    by blast
  have len: "length pts = nat npts" "length wts = nat npts"
    using gauss_1d_lengths [OF g] by simp_all
  have srt: "sort pts = pts"
    using gauss_1d_sorted [OF g] by (simp add: sorted_sort_id)
  have sym: "\<forall>i<nat npts. sort pts ! i = - (sort pts ! (nat npts - 1 - i))"
  proof (intro allI impI)
    fix i
    assume "i < nat npts"
    then have "i < length pts" by (simp only: len)
    from antisymmetric_nth [OF gauss_1d_antisymmetric [OF g] this]
    show "sort pts ! i = - (sort pts ! (nat npts - 1 - i))"
      by (simp only: srt len)
  qed
  have zero: "odd npts \<longrightarrow> length (filter (\<lambda>p. p = 0) pts) = 1"
    using gauss_1d_zero_count [OF g] by simp
  have "\<bar>sum_list wts - 2\<bar> \<le> 1 / 10 ^ 17"
    by (rule gauss_1d_weight_sum [OF g])
  also have "\<dots> \<le> 1 / 10 ^ 12"
    by simp
  finally have tol: "\<bar>sum_list wts - 2\<bar> \<le> 1 / 10 ^ 12" .
  from g len sym zero tol gauss_1d_interior [OF g]
  show ?thesis by blast
qed

theorem gauss_1d_invariants_witness:
  "gauss_1d 3 = Inr ([- 0.774596669241483377, 0, 0.774596669241483377],
                     [0.555555555555555556, 0.888888888888888889, 0.555555555555555556]) \<and>
   length [- 0.774596669241483377, 0, 0.774596669241483377 :: real] = nat 3 \<and>
   \<bar>sum_list [0.555555555555555556, 0.888888888888888889, 0.555555555555555556 :: real] - 2\<bar>
     \<le> 1 / 10 ^ 12 \<and>
   sort [- 0.774596669241483377, 0, 0.774596669241483377 :: real] ! 0
     = - (sort [- 0.774596669241483377, 0, 0.774596669241483377 :: real] ! 2) \<and>
   length (filter (\<lambda>p. p = 0) [- 0.774596669241483377, 0, 0.774596669241483377 :: real]) = 1"
proof -
  have v: "(2::int) \<le> 3" "(3::int) \<le> 10" by simp_all
  from gauss_1d_invariants [OF v] obtain pts wts where
    g: "gauss_1d 3 = Inr (pts, wts)" and
    len: "length pts = nat 3" and
    s: "\<bar>sum_list wts - 2\<bar> \<le> 1 / 10 ^ 12" and
    sym: "\<forall>i<nat 3. sort pts ! i = - (sort pts ! (nat 3 - 1 - i))" and
    z: "odd (3::int) \<longrightarrow> length (filter (\<lambda>p. p = 0) pts) = 1"
    by blast
  have t: "gauss_1d 3 = Inr ([- 0.774596669241483377, 0, 0.774596669241483377],
                     [0.555555555555555556, 0.888888888888888889, 0.555555555555555556])"
    by (simp add: gauss_1d_def)
  from g t have p: "pts = [- 0.774596669241483377, 0, 0.774596669241483377]"
    and w: "wts = [0.555555555555555556, 0.888888888888888889, 0.555555555555555556]"
    by simp_all
  have i0: "(0::nat) < nat 3" by simp
  have e2: "nat 3 - 1 - 0 = (2::nat)" by simp
  have o3: "odd (3::int)" by simp
  from sym i0 have "sort pts ! 0 = - (sort pts ! (nat 3 - 1 - 0))" by blast
  then have s0: "sort pts ! 0 = - (sort pts ! 2)" by (simp only: e2)
  from z o3 have z1: "length (filter (\<lambda>p. p = 0) pts) = 1" by blast
  show ?thesis
  proof (intro conjI)
    show "gauss_1d 3 = Inr ([- 0.774596669241483377, 0, 0.774596669241483377],
                     [0.555555555555555556, 0.888888888888888889, 0.555555555555555556])"
      by (rule t)
    show "length [- 0.774596669241483377, 0, 0.774596669241483377 :: real] = nat 3"
      by (rule len [unfolded p])
    show "\<bar>sum_list [0.555555555555555556, 0.888888888888888889, 0.555555555555555556 :: real] - 2\<bar>
     \<le> 1 / 10 ^ 12"
      by (rule s [unfolded w])
    show "sort [- 0.774596669241483377, 0, 0.774596669241483377 :: real] ! 0
     = - (sort [- 0.774596669241483377, 0, 0.774596669241483377 :: real] ! 2)"
      by (rule s0 [unfolded p])
    show "length (filter (\<lambda>p. p = 0) [- 0.774596669241483377, 0, 0.774596669241483377 :: real]) = 1"
      by (rule z1 [unfolded p])
  qed
qed

subsection \<open>The dimension argument of the hypercube builder\<close>

text \<open>
  Claim C9. For every valid point count \<open>n\<close> in [2, 10], \<^verbatim>\<open>gauss_nd(n, 0)\<close> does not
  raise: it returns exactly one point, the empty coordinate tuple, paired with exactly
  one weight, 1.0 (the empty product).
\<close>

theorem gauss_nd_zero_dim:
  assumes "2 \<le> npts" "npts \<le> 10"
  shows "gauss_nd npts 0 = Inr ([[]], [1])"
proof -
  from gauss_1d_valid [OF assms] obtain pts wts where "gauss_1d npts = Inr (pts, wts)"
    by blast
  then show ?thesis
    by (simp add: gauss_nd_def product_repeat_zero np_prod_Nil)
qed

theorem gauss_nd_zero_dim_witness:
  "(2::int) \<le> 4 \<and> (4::int) \<le> 10 \<and> gauss_nd 4 0 = Inr ([[]], [1])"
  using gauss_nd_zero_dim [of 4] by simp




subsection \<open>The hypercube builder\<close>



subsection \<open>Errors of the triangle catalog\<close>

text \<open>
  Claim C6. \<^verbatim>\<open>gauss_tri(order)\<close> raises an error whose message identifies the valid
  range [1, 7] if and only if \<open>order\<close> is not one of the integers 1 to 7; in particular
  the calls with 0 and with 8 fail. On the failing branch the result is the error
  alone: points and weights are returned exactly when \<open>order\<close> is in range.
\<close>

theorem gauss_tri_error_iff:
  "(gauss_tri order = Inl (ValueError ''The order should be in [1, 7]'')) = (order < 1 \<or> 7 < order) \<and>
   (isl (gauss_tri order) \<longleftrightarrow> order < 1 \<or> 7 < order) \<and>
   ((\<exists>pts wts. gauss_tri order = Inr (pts, wts)) \<longleftrightarrow> 1 \<le> order \<and> order \<le> 7)"
proof (cases "1 \<le> order \<and> order \<le> 7")
  case True
  then have "order = 1 \<or> order = 2 \<or> order = 3 \<or> order = 4 \<or> order = 5 \<or> order = 6 \<or> order = 7"
    by arith
  then show ?thesis
    by (auto simp: gauss_tri_def)
next
  case False
  then have "order < 1 \<or> 7 < order" by arith
  then show ?thesis
    by (auto simp: gauss_tri_def)
qed

theorem gauss_tri_error_iff_witness:
  "gauss_tri 0 = Inl (ValueError ''The order should be in [1, 7]'') \<and>
   gauss_tri 8 = Inl (ValueError ''The order should be in [1, 7]'') \<and>
   isl (gauss_tri 0) \<and> isl (gauss_tri 8) \<and> \<not> isl (gauss_tri 1) \<and> \<not> isl (gauss_tri 7)"
  using gauss_tri_error_iff [of 0] gauss_tri_error_iff [of 8] gauss_tri_error_iff [of 1]
    gauss_tri_error_iff [of 7]
  by simp

subsection \<open>The triangle catalog\<close>

text \<open>
  Claim C4. For every order in [1, 7], \<^verbatim>\<open>gauss_tri(order)\<close> returns a sequence of
  points and a sequence of weights of equal length: exactly 1 point for order 1,
  exactly 3 for order 2, exactly 7 for each of the orders 3, 4 and 5, which share one
  rule set, and exactly 13 for each of the orders 6 and 7, which share one rule set
  that contains exactly one strictly negative weight.
\<close>

theorem gauss_tri_sizes:
  assumes "1 \<le> order" "order \<le> 7"
  shows "\<exists>pts wts. gauss_tri order = Inr (pts, wts) \<and>
           length pts = length wts \<and>
           length pts = (if order = 1 then 1 else if order = 2 then 3
                         else if order \<le> 5 then 7 else 13) \<and>
           (3 \<le> order \<and> order \<le> 5 \<longrightarrow> gauss_tri order = gauss_tri 3) \<and>
           (6 \<le> order \<longrightarrow>
              gauss_tri order = gauss_tri 6 \<and> length (filter (\<lambda>w. w < 0) wts) = 1)"
proof -
  from assms have "order = 1 \<or> order = 2 \<or> order = 3 \<or> order = 4 \<or> order = 5
      \<or> order = 6 \<or> order = 7"
    by arith
  then show ?thesis
    by (elim disjE) (simp_all add: gauss_tri_def np_full_def)
qed

theorem gauss_tri_sizes_witness:
  "gauss_tri 5 = gauss_tri 3 \<and> gauss_tri 7 = gauss_tri 6 \<and>
   \<not> isl (gauss_tri 7) \<and>
   length (fst (projr (gauss_tri 7))) = 13 \<and>
   length (snd (projr (gauss_tri 7))) = 13 \<and>
   length (filter (\<lambda>w. w < 0) (snd (projr (gauss_tri 7)))) = 1 \<and>
   length (fst (projr (gauss_tri 5))) = 7"
proof -
  have "(1::int) \<le> 7" "(7::int) \<le> 7" "(1::int) \<le> 5" "(5::int) \<le> 7" by simp_all
  from gauss_tri_sizes [OF this(1,2)] gauss_tri_sizes [OF this(3,4)]
  show ?thesis by auto
qed

subsection \<open>The legacy accessors\<close>

lemma gpoints3_value:
  "gpoints3 = ([0.333333333333, 0.333333333333, 0.333333333333],
               [[0.1666666666667, 0.1666666666667],
                [0.6666666666667, 0.1666666666667],
                [0.1666666666667, 0.6666666666667]])"
  by (simp add: gpoints3_def np_full_def np_zeros2_def setitem2_def eval_nat_numeral)

lemma gpoints2x2_value:
  "gpoints2x2 = ([1, 1, 1, 1],
                 [[- 0.577350269189626, 0.577350269189626],
                  [0.577350269189626, 0.577350269189626],
                  [- 0.577350269189626, - 0.577350269189626],
                  [0.577350269189626, - 0.577350269189626]])"
  by (simp add: gpoints2x2_def np_ones_def np_full_def np_zeros2_def setitem2_def
      eval_nat_numeral)

lemma gauss_nd_2_2_value:
  "gauss_nd 2 2 = Inr ([[- 0.577350269189625764, - 0.577350269189625764],
                        [- 0.577350269189625764, 0.577350269189625764],
                        [0.577350269189625764, - 0.577350269189625764],
                        [0.577350269189625764, 0.577350269189625764]],
                       [1, 1, 1, 1])"
  by (simp add: gauss_nd_def gauss_1d_def product_repeat_def product_pools_def
      product_step_def np_prod_def eval_nat_numeral)

text \<open>
  Claim C8 says that the weights of \<^verbatim>\<open>gpoints3()\<close> equal 1/3 and its coordinates equal
  1/6 and 2/3. The tables hold these numbers cut to 12 and 13 decimal digits, so none
  of the equalities is exact.
\<close>

theorem gpoints3_thirds_counterexample:
  "fst gpoints3 \<noteq> [1 / 3, 1 / 3, 1 / 3] \<and>
   snd gpoints3 \<noteq> [[1 / 6, 1 / 6], [2 / 3, 1 / 6], [1 / 6, 2 / 3]]"
  by (simp add: gpoints3_value)

text \<open>
  Claim C8, as amended. \<^verbatim>\<open>gpoints3()\<close> returns the pair (weights, points), inverted
  relative to the (points, weights) of \<^verbatim>\<open>gauss_tri(2)\<close> and holding the same two tables.
  The weights are three times 0.333333333333 and the points are
  (0.1666666666667, 0.1666666666667), (0.6666666666667, 0.1666666666667),
  (0.1666666666667, 0.6666666666667), in that order; each entry is within \<open>1e-12\<close> of
  1/3, 1/6 or 2/3 respectively.
\<close>

theorem gpoints3_tables:
  "gpoints3 = ([0.333333333333, 0.333333333333, 0.333333333333],
               [[0.1666666666667, 0.1666666666667],
                [0.6666666666667, 0.1666666666667],
                [0.1666666666667, 0.6666666666667]]) \<and>
   gauss_tri 2 = Inr (snd gpoints3, fst gpoints3) \<and>
   list_all2 (\<lambda>x y. \<bar>x - y\<bar> \<le> 1 / 10 ^ 12) (fst gpoints3) [1 / 3, 1 / 3, 1 / 3] \<and>
   list_all2 (list_all2 (\<lambda>x y. \<bar>x - y\<bar> \<le> 1 / 10 ^ 12)) (snd gpoints3)
     [[1 / 6, 1 / 6], [2 / 3, 1 / 6], [1 / 6, 2 / 3]]"
  by (simp add: gpoints3_value gauss_tri_def np_full_def numeral_3_eq_3)

text \<open>
  Claim C3 says that \<^verbatim>\<open>gauss_nd(2, 2)\<close> and \<^verbatim>\<open>gpoints2x2()\<close> hold the same multiset
  of coordinate tuples and weights. The legacy table spells the abscissa with 15
  digits, 0.577350269189626, where \<^verbatim>\<open>gauss_1d\<close> has 0.577350269189625764, so no
  tuple of one occurs in the other.
\<close>

theorem gauss_nd_2_2_legacy_counterexample:
  "mset (fst (projr (gauss_nd 2 2))) \<noteq> mset (snd gpoints2x2) \<and>
   mset (zip (fst (projr (gauss_nd 2 2))) (snd (projr (gauss_nd 2 2))))
     \<noteq> mset (zip (snd gpoints2x2) (fst gpoints2x2))"
proof (intro conjI notI)
  assume "mset (fst (projr (gauss_nd 2 2))) = mset (snd gpoints2x2)"
  then have "set (fst (projr (gauss_nd 2 2))) = set (snd gpoints2x2)"
    by (rule mset_eq_setD)
  moreover have "[- 0.577350269189625764, - 0.577350269189625764]
      \<in> set (fst (projr (gauss_nd 2 2)))"
    by (simp add: gauss_nd_2_2_value)
  ultimately have "[- 0.577350269189625764, - 0.577350269189625764] \<in> set (snd gpoints2x2)"
    by (simp only:)
  then show False
    by (simp add: gpoints2x2_value)
next
  assume "mset (zip (fst (projr (gauss_nd 2 2))) (snd (projr (gauss_nd 2 2))))
     = mset (zip (snd gpoints2x2) (fst gpoints2x2))"
  then have "set (zip (fst (projr (gauss_nd 2 2))) (snd (projr (gauss_nd 2 2))))
     = set (zip (snd gpoints2x2) (fst gpoints2x2))"
    by (rule mset_eq_setD)
  moreover have "([- 0.577350269189625764, - 0.577350269189625764], 1)
      \<in> set (zip (fst (projr (gauss_nd 2 2))) (snd (projr (gauss_nd 2 2))))"
    by (simp add: gauss_nd_2_2_value)
  ultimately have "([- 0.577350269189625764, - 0.577350269189625764], 1)
      \<in> set (zip (snd gpoints2x2) (fst gpoints2x2))"
    by (simp only:)
  then show False
    by (simp add: gpoints2x2_value)
qed

text \<open>
  The gap between the two spellings, \<open>2.36e-16\<close>, is more than two spacings of
  binary64 numbers in [1/2, 1), so the two literals also denote different doubles:
  every coordinate of every point of \<^verbatim>\<open>gauss_nd(2, 2)\<close> is further than
  \<open>2 / 2 ^ 53\<close> from the same coordinate of every point of \<^verbatim>\<open>gpoints2x2()\<close>.
\<close>

lemma gauss_nd_2_2_legacy_gap:
  assumes "p \<in> set (fst (projr (gauss_nd 2 2)))" "q \<in> set (snd gpoints2x2)"
  shows "2 / 2 ^ 53 < \<bar>p ! 0 - q ! 0\<bar> \<and> 2 / 2 ^ 53 < \<bar>p ! 1 - q ! 1\<bar>"
  using assms by (auto simp: gauss_nd_2_2_value gpoints2x2_value)

text \<open>
  Claim C3, as amended. \<^verbatim>\<open>gauss_nd(2, 2)\<close> yields exactly 4 points, the four sign
  combinations of 0.577350269189625764, each with weight 1.0. Its multiset of weights
  equals that of \<^verbatim>\<open>gpoints2x2()\<close>, and its (point, weight) pairs are those of
  \<^verbatim>\<open>gpoints2x2()\<close> in another order, with equal weights and with coordinates that
  differ by at most \<open>1e-15\<close>.
\<close>

theorem gauss_nd_2_2_legacy:
  "gauss_nd 2 2 = Inr ([[- 0.577350269189625764, - 0.577350269189625764],
                        [- 0.577350269189625764, 0.577350269189625764],
                        [0.577350269189625764, - 0.577350269189625764],
                        [0.577350269189625764, 0.577350269189625764]],
                       [1, 1, 1, 1]) \<and>
   mset (snd (projr (gauss_nd 2 2))) = mset (fst gpoints2x2) \<and>
   (\<exists>qs. mset qs = mset (zip (snd gpoints2x2) (fst gpoints2x2)) \<and>
      list_all2 (\<lambda>(p, w) (q, v). w = v \<and> list_all2 (\<lambda>x y. \<bar>x - y\<bar> \<le> 1 / 10 ^ 15) p q)
        (zip (fst (projr (gauss_nd 2 2))) (snd (projr (gauss_nd 2 2)))) qs)"
proof -
  let ?z = "zip (snd gpoints2x2) (fst gpoints2x2)"
  let ?qs = "[?z ! 2, ?z ! 0, ?z ! 3, ?z ! 1]"
  have "mset ?qs = mset ?z"
    by (simp add: gpoints2x2_value)
  moreover have "list_all2
      (\<lambda>(p, w) (q, v). w = v \<and> list_all2 (\<lambda>x y. \<bar>x - y\<bar> \<le> 1 / 10 ^ 15) p q)
      (zip (fst (projr (gauss_nd 2 2))) (snd (projr (gauss_nd 2 2)))) ?qs"
    by (simp add: gauss_nd_2_2_value gpoints2x2_value)
  ultimately have "\<exists>qs. mset qs = mset ?z \<and> list_all2
      (\<lambda>(p, w) (q, v). w = v \<and> list_all2 (\<lambda>x y. \<bar>x - y\<bar> \<le> 1 / 10 ^ 15) p q)
      (zip (fst (projr (gauss_nd 2 2))) (snd (projr (gauss_nd 2 2)))) qs"
    by blast
  moreover have "mset (snd (projr (gauss_nd 2 2))) = mset (fst gpoints2x2)"
    by (simp add: gauss_nd_2_2_value gpoints2x2_value)
  ultimately show ?thesis
    using gauss_nd_2_2_value by blast
qed

subsection \<open>Default arguments\<close>

text \<open>
  Claim C10. Both public operations with an optional parameter have a fixed default:
  \<^verbatim>\<open>gauss_nd(npts)\<close> returns exactly what \<^verbatim>\<open>gauss_nd(npts, 2)\<close> returns, for every
  \<open>npts\<close>, and \<^verbatim>\<open>gauss_tri()\<close> returns exactly what \<^verbatim>\<open>gauss_tri(2)\<close> returns.
\<close>

theorem optional_argument_defaults:
  "gauss_nd_call npts None = gauss_nd_call npts (Some 2) \<and>
   gauss_nd_call npts None = gauss_nd npts 2 \<and>
   gauss_tri_call None = gauss_tri_call (Some 2) \<and>
   gauss_tri_call None = gauss_tri 2 \<and>
   gauss_tri_call None =
     Inr ([[0.1666666666667, 0.1666666666667],
           [0.6666666666667, 0.1666666666667],
           [0.1666666666667, 0.6666666666667]],
          [0.333333333333, 0.333333333333, 0.333333333333])"
proof -
  have "gauss_tri 2 =
     Inr ([[0.1666666666667, 0.1666666666667],
           [0.6666666666667, 0.1666666666667],
           [0.1666666666667, 0.6666666666667]],
          [0.333333333333, 0.333333333333, 0.333333333333])"
    by (simp add: gauss_tri_def np_full_def eval_nat_numeral)
  then show ?thesis
    by (simp add: gauss_nd_call_def gauss_tri_call_def)
qed

end
